theory Spec2Isabelle
  imports Main "HOL-Library.Word"
begin

unbundle bit_operations_syntax

section \<open>Python values used by the program\<close>

text \<open>
  The program is a single Python module. Its strings are modelled as HOL strings (the
  program only ever hashes ASCII text: hexadecimal digests, hexadecimal signatures and
  the textual rendering of dictionaries), its unbounded integers as \<open>int\<close>, bytes as
  8-bit words.
\<close>

subsection \<open>SHA-256 (FIPS 180-4), as computed by hashlib.sha256\<close>

type_synonym u32 = "32 word"
type_synonym byte = "8 word"

definition rotr :: "nat \<Rightarrow> u32 \<Rightarrow> u32" where
  "rotr n x = drop_bit n x OR push_bit (32 - n) x"

definition Ch :: "u32 \<Rightarrow> u32 \<Rightarrow> u32 \<Rightarrow> u32" where
  "Ch x y z = (x AND y) XOR (NOT x AND z)"

definition Maj :: "u32 \<Rightarrow> u32 \<Rightarrow> u32 \<Rightarrow> u32" where
  "Maj x y z = (x AND y) XOR (x AND z) XOR (y AND z)"

definition bsig0 :: "u32 \<Rightarrow> u32" where
  "bsig0 x = rotr 2 x XOR rotr 13 x XOR rotr 22 x"

definition bsig1 :: "u32 \<Rightarrow> u32" where
  "bsig1 x = rotr 6 x XOR rotr 11 x XOR rotr 25 x"

definition ssig0 :: "u32 \<Rightarrow> u32" where
  "ssig0 x = rotr 7 x XOR rotr 18 x XOR drop_bit 3 x"

definition ssig1 :: "u32 \<Rightarrow> u32" where
  "ssig1 x = rotr 17 x XOR rotr 19 x XOR drop_bit 10 x"

definition K256 :: "u32 list" where
  "K256 =
   [0x428A2F98, 0x71374491, 0xB5C0FBCF, 0xE9B5DBA5, 0x3956C25B, 0x59F111F1, 0x923F82A4, 0xAB1C5ED5,
    0xD807AA98, 0x12835B01, 0x243185BE, 0x550C7DC3, 0x72BE5D74, 0x80DEB1FE, 0x9BDC06A7, 0xC19BF174,
    0xE49B69C1, 0xEFBE4786, 0x0FC19DC6, 0x240CA1CC, 0x2DE92C6F, 0x4A7484AA, 0x5CB0A9DC, 0x76F988DA,
    0x983E5152, 0xA831C66D, 0xB00327C8, 0xBF597FC7, 0xC6E00BF3, 0xD5A79147, 0x06CA6351, 0x14292967,
    0x27B70A85, 0x2E1B2138, 0x4D2C6DFC, 0x53380D13, 0x650A7354, 0x766A0ABB, 0x81C2C92E, 0x92722C85,
    0xA2BFE8A1, 0xA81A664B, 0xC24B8B70, 0xC76C51A3, 0xD192E819, 0xD6990624, 0xF40E3585, 0x106AA070,
    0x19A4C116, 0x1E376C08, 0x2748774C, 0x34B0BCB5, 0x391C0CB3, 0x4ED8AA4A, 0x5B9CCA4F, 0x682E6FF3,
    0x748F82EE, 0x78A5636F, 0x84C87814, 0x8CC70208, 0x90BEFFFA, 0xA4506CEB, 0xBEF9A3F7, 0xC67178F2]"

record hstate =
  reg_a :: u32  reg_b :: u32  reg_c :: u32  reg_d :: u32
  reg_e :: u32  reg_f :: u32  reg_g :: u32  reg_h :: u32

definition H256 :: hstate where
  "H256 = \<lparr>reg_a = 0x6A09E667, reg_b = 0xBB67AE85, reg_c = 0x3C6EF372, reg_d = 0xA54FF53A,
            reg_e = 0x510E527F, reg_f = 0x9B05688C, reg_g = 0x1F83D9AB, reg_h = 0x5BE0CD19\<rparr>"

fun sched :: "nat \<Rightarrow> u32 list \<Rightarrow> u32 list" where
  "sched 0 ws = []"
| "sched (Suc n) ws =
     (let w = ssig1 (ws ! 14) + ws ! 9 + ssig0 (ws ! 1) + ws ! 0
      in w # sched n (tl ws @ [w]))"

definition round256 :: "hstate \<Rightarrow> u32 \<times> u32 \<Rightarrow> hstate" where
  "round256 s kw =
     (let t1 = reg_h s + bsig1 (reg_e s) + Ch (reg_e s) (reg_f s) (reg_g s) + fst kw + snd kw;
          t2 = bsig0 (reg_a s) + Maj (reg_a s) (reg_b s) (reg_c s)
      in \<lparr>reg_a = t1 + t2, reg_b = reg_a s, reg_c = reg_b s, reg_d = reg_c s,
          reg_e = reg_d s + t1, reg_f = reg_e s, reg_g = reg_f s, reg_h = reg_g s\<rparr>)"

definition compress :: "hstate \<Rightarrow> u32 list \<Rightarrow> hstate" where
  "compress s m =
     (let s' = foldl round256 s (zip K256 (m @ sched 48 m))
      in \<lparr>reg_a = reg_a s + reg_a s', reg_b = reg_b s + reg_b s', reg_c = reg_c s + reg_c s', reg_d = reg_d s + reg_d s',
          reg_e = reg_e s + reg_e s', reg_f = reg_f s + reg_f s', reg_g = reg_g s + reg_g s', reg_h = reg_h s + reg_h s'\<rparr>)"

fun be_words :: "byte list \<Rightarrow> u32 list" where
  "be_words (b0 # b1 # b2 # b3 # bs) =
     (push_bit 24 (ucast b0) OR push_bit 16 (ucast b1) OR push_bit 8 (ucast b2) OR ucast b3)
       # be_words bs"
| "be_words _ = []"

definition be_bytes :: "nat \<Rightarrow> nat \<Rightarrow> byte list" where
  "be_bytes k n = map (\<lambda>i. word_of_nat (n div 256 ^ i)) (rev [0..<k])"

definition pad :: "byte list \<Rightarrow> byte list" where
  "pad bs =
     bs @ [0x80] @ replicate ((119 - length bs mod 64) mod 64) 0
        @ be_bytes 8 (8 * length bs mod 2 ^ 64)"

function blocks :: "byte list \<Rightarrow> byte list list" where
  "blocks bs = (if bs = [] then [] else take 64 bs # blocks (drop 64 bs))"
  by pat_completeness auto
termination
  by (relation "measure length") auto

declare blocks.simps [simp del]

definition hex_digits :: string where
  "hex_digits = ''0123456789abcdef''"

definition hex_digit :: "nat \<Rightarrow> char" where
  "hex_digit n = hex_digits ! n"

definition hex_byte :: "byte \<Rightarrow> string" where
  "hex_byte b = [hex_digit (unat b div 16), hex_digit (unat b mod 16)]"

definition hexlify :: "byte list \<Rightarrow> string" where
  "hexlify bs = concat (map hex_byte bs)"

definition word_bytes :: "u32 \<Rightarrow> byte list" where
  "word_bytes w = [ucast (drop_bit 24 w), ucast (drop_bit 16 w), ucast (drop_bit 8 w), ucast w]"

definition digest_bytes :: "hstate \<Rightarrow> byte list" where
  "digest_bytes s = concat (map word_bytes [reg_a s, reg_b s, reg_c s, reg_d s, reg_e s, reg_f s, reg_g s, reg_h s])"

definition sha256_bytes :: "byte list \<Rightarrow> byte list" where
  "sha256_bytes bs = digest_bytes (foldl compress H256 (map be_words (blocks (pad bs))))"


text \<open>\<open>str.encode('utf-8')\<close> on code points below 256: one byte below 128, two above.\<close>

definition utf8_encode :: "string \<Rightarrow> byte list" where
  "utf8_encode s =
     concat (map (\<lambda>c. let n = (of_char c :: nat)
                      in if n < 128 then [word_of_nat n]
                         else [word_of_nat (192 + n div 64), word_of_nat (128 + n mod 64)]) s)"

text \<open>\<open>def sha256(message): return hashlib.sha256(message.encode('utf-8')).hexdigest()\<close>\<close>

definition sha256 :: "string \<Rightarrow> string" where
  "sha256 message = hexlify (sha256_bytes (utf8_encode message))"

subsection \<open>Rendering of Python values: \<open>repr\<close> and \<open>str\<close>\<close>

definition digit_char :: "nat \<Rightarrow> char" where
  "digit_char n = ''0123456789'' ! n"

function str_nat :: "nat \<Rightarrow> string" where
  "str_nat n = (if n < 10 then [digit_char n] else str_nat (n div 10) @ [digit_char (n mod 10)])"
  by pat_completeness auto
termination
  by (relation "measure id") auto

declare str_nat.simps [simp del]

definition str_int :: "int \<Rightarrow> string" where
  "str_int i = (if i < 0 then CHR ''-'' # str_nat (nat (- i)) else str_nat (nat i))"

text \<open>
  \<open>repr\<close> of a string: single quotes unless the string holds a single quote and no
  double quote; the quote and the backslash are escaped, tab, newline and carriage return
  have their letters, every other non-printable character is \<open>\xNN\<close>.
\<close>

definition printable :: "char \<Rightarrow> bool" where
  "printable c = (let n = (of_char c :: nat)
                  in (32 \<le> n \<and> n < 127) \<or> (161 \<le> n \<and> n \<noteq> 173))"

definition repr_char :: "char \<Rightarrow> char \<Rightarrow> string" where
  "repr_char q c =
     (if c = q \<or> c = CHR 0x5C then [CHR 0x5C, c]
      else if c = CHR 0x09 then [CHR 0x5C, CHR ''t'']
      else if c = CHR 0x0A then [CHR 0x5C, CHR ''n'']
      else if c = CHR 0x0D then [CHR 0x5C, CHR ''r'']
      else if \<not> printable c
        then [CHR 0x5C, CHR ''x'', hex_digit (of_char c div 16), hex_digit (of_char c mod 16)]
      else [c])"

definition repr_str :: "string \<Rightarrow> string" where
  "repr_str s =
     (let q = (if CHR 0x27 \<in> set s \<and> CHR 0x22 \<notin> set s then CHR 0x22 else CHR 0x27)
      in q # concat (map (repr_char q) s) @ [q])"

text \<open>
  \<open>datetime.datetime\<close>, naive (no tzinfo), as \<open>datetime.datetime.now()\<close> returns it.
  Its \<open>repr\<close> drops a zero microsecond, and then a zero second.
\<close>

record datetime =
  year :: nat
  month :: nat
  day :: nat
  hour :: nat
  minute :: nat
  second :: nat
  microsecond :: nat
  dt_fold :: bool

definition join_comma :: "string list \<Rightarrow> string" where
  "join_comma xs = (case xs of [] \<Rightarrow> [] | y # ys \<Rightarrow> y @ concat (map (\<lambda>z. '', '' @ z) ys))"

definition repr_datetime :: "datetime \<Rightarrow> string" where
  "repr_datetime t =
     (let L = [year t, month t, day t, hour t, minute t, second t, microsecond t];
          L1 = (if last L = 0 then butlast L else L);
          L2 = (if last L1 = 0 then butlast L1 else L1);
          s = ''datetime.datetime('' @ join_comma (map str_nat L2) @ '')''
      in if dt_fold t then butlast s @ '', fold=1)'' else s)"

datatype pyval = PyStr string | PyInt int | PyNone | PyDatetime datetime

fun repr :: "pyval \<Rightarrow> string" where
  "repr (PyStr s) = repr_str s"
| "repr (PyInt i) = str_int i"
| "repr PyNone = ''None''"
| "repr (PyDatetime t) = repr_datetime t"

text \<open>\<open>str\<close> of a dictionary, in insertion order: \<open>{k1: v1, k2: v2}\<close> with \<open>repr\<close> of keys and values.\<close>

definition str_dict :: "(string \<times> pyval) list \<Rightarrow> string" where
  "str_dict d = ''{'' @ join_comma (map (\<lambda>(k, v). repr_str k @ '': '' @ repr v) d) @ ''}''"

text \<open>\<open>s.endswith(suffix)\<close> and \<open>s * n\<close> (empty for \<open>n \<le> 0\<close>).\<close>

definition endswith :: "string \<Rightarrow> string \<Rightarrow> bool" where
  "endswith s suf = (length suf \<le> length s \<and> drop (length s - length suf) s = suf)"

definition str_mul :: "string \<Rightarrow> int \<Rightarrow> string" where
  "str_mul s n = concat (replicate (nat n) s)"

section \<open>The program\<close>

subsection \<open>Node\<close>

text \<open>
  A node holds a name and an RSA private key (\<open>RSA.generate(1024)\<close>; the key drawn is an
  input of the model). The two operations of the RSA library the program calls are
  parameters: the export of the public key (\<open>public_key().export_key()\<close>) and the
  PKCS#1 v1.5 signature of a SHA-256 digest (\<open>PKCS1_v1_5.new(key).sign(h)\<close>).
\<close>

record RsaKey =
  rsa_n :: nat
  rsa_e :: nat
  rsa_d :: nat

record Node =
  name :: string
  private_key :: RsaKey

record crypto =
  export_key :: "RsaKey \<Rightarrow> byte list"
  pkcs1_sign :: "RsaKey \<Rightarrow> byte list \<Rightarrow> byte list"

definition identity :: "crypto \<Rightarrow> Node \<Rightarrow> string" where
  "identity L nd = hexlify (export_key L (private_key nd))"

subsection \<open>Transaction\<close>

text \<open>The constructor reads the clock; the reading \<open>now\<close> is an argument of the model.\<close>

record Transaction =
  sender :: Node
  receiver :: Node
  val :: int
  timestamp :: datetime

definition Transaction_init :: "Node \<Rightarrow> Node \<Rightarrow> int \<Rightarrow> datetime \<Rightarrow> Transaction" where
  "Transaction_init s r v now = \<lparr>sender = s, receiver = r, val = v, timestamp = now\<rparr>"

definition to_dict :: "crypto \<Rightarrow> Transaction \<Rightarrow> (string \<times> pyval) list" where
  "to_dict L t =
     [(''sender'', PyStr (identity L (sender t))),
      (''receiver'', PyStr (identity L (receiver t))),
      (''value'', PyInt (val t)),
      (''time'', PyDatetime (timestamp t))]"

text \<open>The text that is hashed and signed: \<open>str(self.to_dict())\<close>.\<close>

definition canonical_form :: "crypto \<Rightarrow> Transaction \<Rightarrow> string" where
  "canonical_form L t = str_dict (to_dict L t)"

definition sign :: "crypto \<Rightarrow> Transaction \<Rightarrow> string" where
  "sign L t =
     (let h = sha256_bytes (utf8_encode (canonical_form L t))
      in hexlify (pkcs1_sign L (private_key (sender t)) h))"

subsection \<open>Transactions: the pool, on a heap of list and pool objects\<close>

text \<open>
  A pool object holds a reference to a Python list object and a count. List objects and
  pool objects live in a store, since \<open>__copy__\<close> and \<open>clear\<close> are about which objects
  are shared. Fresh addresses come from the two counters. The fields \<open>lst\<close> and
  \<open>count\<close> of the pool are \<open>tx_lst\<close> and \<open>tx_count\<close> here, those of the chain
  \<open>bc_lst\<close> and \<open>bc_count\<close>.
\<close>

type_synonym addr = nat

record Transactions =
  tx_lst :: addr
  tx_count :: int

record heap =
  list_store :: "addr \<Rightarrow> Transaction list"
  pool_store :: "addr \<Rightarrow> Transactions"
  next_list :: addr
  next_pool :: addr

definition heap_empty :: heap where
  "heap_empty = \<lparr>list_store = (\<lambda>_. []), pool_store = (\<lambda>_. \<lparr>tx_lst = 0, tx_count = 0\<rparr>),
                  next_list = 0, next_pool = 0\<rparr>"

definition new_list :: "heap \<Rightarrow> Transaction list \<Rightarrow> addr \<times> heap" where
  "new_list h xs = (next_list h, h\<lparr>list_store := (list_store h)(next_list h := xs),
                                  next_list := Suc (next_list h)\<rparr>)"

text \<open>\<open>__init__\<close>: \<open>self.lst = []; self.count = 0\<close>, on a fresh pool object.\<close>

definition Transactions_init :: "heap \<Rightarrow> addr \<times> heap" where
  "Transactions_init h =
     (let (l, h1) = new_list h []
      in (next_pool h1, h1\<lparr>pool_store := (pool_store h1)(next_pool h1 := \<lparr>tx_lst = l, tx_count = 0\<rparr>),
                           next_pool := Suc (next_pool h1)\<rparr>))"

text \<open>\<open>transfer\<close>: \<open>self.lst.append(t); self.count += 1\<close>.\<close>

definition transfer :: "heap \<Rightarrow> addr \<Rightarrow> Node \<Rightarrow> Node \<Rightarrow> int \<Rightarrow> datetime \<Rightarrow> heap" where
  "transfer h p s r v now =
     (let t = Transaction_init s r v now;
          l = tx_lst (pool_store h p);
          h1 = h\<lparr>list_store := (list_store h)(l := list_store h l @ [t])\<rparr>
      in h1\<lparr>pool_store := (pool_store h1)(p := (pool_store h1 p)\<lparr>tx_count := tx_count (pool_store h1 p) + 1\<rparr>)\<rparr>)"

text \<open>\<open>clear\<close>: \<open>self.lst.clear(); self.count = 0\<close>; the list object is emptied in place.\<close>

definition clear :: "heap \<Rightarrow> addr \<Rightarrow> heap" where
  "clear h p =
     (let l = tx_lst (pool_store h p);
          h1 = h\<lparr>list_store := (list_store h)(l := [])\<rparr>
      in h1\<lparr>pool_store := (pool_store h1)(p := (pool_store h1 p)\<lparr>tx_count := 0\<rparr>)\<rparr>)"

text \<open>
  \<open>__copy__\<close>: a new pool object from the constructor, then its \<open>lst\<close> is set to a new
  list object with the same elements (\<open>self.lst.copy()\<close>) and its count to \<open>self.count\<close>.
\<close>

definition Transactions_copy :: "heap \<Rightarrow> addr \<Rightarrow> addr \<times> heap" where
  "Transactions_copy h p =
     (let (new_transactions, h1) = Transactions_init h;
          (l, h2) = new_list h1 (list_store h1 (tx_lst (pool_store h1 p)));
          h3 = h2\<lparr>pool_store := (pool_store h2)(new_transactions := (pool_store h2 new_transactions)\<lparr>tx_lst := l\<rparr>)\<rparr>;
          h4 = h3\<lparr>pool_store := (pool_store h3)(new_transactions :=
                   (pool_store h3 new_transactions)\<lparr>tx_count := tx_count (pool_store h3 p)\<rparr>)\<rparr>
      in (new_transactions, h4))"

text \<open>The contents of a pool: the elements of its list object, and its count.\<close>

definition pool_seq :: "heap \<Rightarrow> addr \<Rightarrow> Transaction list" where
  "pool_seq h p = list_store h (tx_lst (pool_store h p))"

definition pool_count :: "heap \<Rightarrow> addr \<Rightarrow> int" where
  "pool_count h p = tx_count (pool_store h p)"

text \<open>
  A heap is well formed when every allocated pool refers to an allocated list object of
  its own and its count is the length of that list.
\<close>

definition allocated :: "heap \<Rightarrow> addr \<Rightarrow> bool" where
  "allocated h p = (p < next_pool h \<and> tx_lst (pool_store h p) < next_list h)"

definition count_ok :: "heap \<Rightarrow> addr \<Rightarrow> bool" where
  "count_ok h p = (pool_count h p = int (length (pool_seq h p)))"

definition heap_ok :: "heap \<Rightarrow> bool" where
  "heap_ok h =
     (\<forall>p < next_pool h. tx_lst (pool_store h p) < next_list h \<and> count_ok h p
        \<and> (\<forall>q < next_pool h. p \<noteq> q \<longrightarrow> tx_lst (pool_store h p) \<noteq> tx_lst (pool_store h q)))"

subsection \<open>Block\<close>

record Block =
  verified_transactions :: addr
  previous_hash :: string
  difficulty :: int
  transaction_hash :: string
  nonce :: "int option"

text \<open>
  \<open>compute_transaction_hash\<close>: the loop appends each signature to \<open>str_rep\<close>, in the
  order of the list; the result is hashed.
\<close>

fun sign_loop :: "crypto \<Rightarrow> string \<Rightarrow> Transaction list \<Rightarrow> string" where
  "sign_loop L str_rep [] = str_rep"
| "sign_loop L str_rep (transaction # rest) = sign_loop L (str_rep @ sign L transaction) rest"

definition compute_transaction_hash :: "crypto \<Rightarrow> heap \<Rightarrow> addr \<Rightarrow> string" where
  "compute_transaction_hash L h vt = sha256 (sign_loop L [] (list_store h (tx_lst (pool_store h vt))))"

text \<open>
  \<open>__init__\<close>: the pool is copied (\<open>copy.copy\<close> calls \<open>__copy__\<close>), the hash of the
  transactions is computed over the copy, the nonce is \<open>None\<close>.
\<close>

definition Block_init :: "crypto \<Rightarrow> heap \<Rightarrow> addr \<Rightarrow> string \<Rightarrow> int \<Rightarrow> Block \<times> heap" where
  "Block_init L h vt ph d =
     (let (snapshot, h1) = Transactions_copy h vt
      in (\<lparr>verified_transactions = snapshot, previous_hash = ph, difficulty = d,
           transaction_hash = compute_transaction_hash L h1 snapshot, nonce = None\<rparr>, h1))"

definition header_to_dict :: "Block \<Rightarrow> (string \<times> pyval) list" where
  "header_to_dict b =
     [(''previous_hash'', PyStr (previous_hash b)),
      (''difficulty'', PyInt (difficulty b)),
      (''transaction_hash'', PyStr (transaction_hash b)),
      (''nonce'', (case nonce b of None \<Rightarrow> PyNone | Some n \<Rightarrow> PyInt n))]"

definition validate_difficulty :: "Block \<Rightarrow> string \<Rightarrow> string \<times> bool" where
  "validate_difficulty b data =
     (let digest = sha256 data
      in if endswith digest (str_mul ''0'' (difficulty b)) then (digest, True)
         else (digest, False))"

text \<open>
  \<open>mine\<close>: the \<open>while not success\<close> loop has no bound; a run that never leaves it is
  \<open>None\<close>. In the loop the nonce is always an integer.
\<close>

partial_function (option) mine_while :: "Block \<Rightarrow> string \<Rightarrow> bool \<Rightarrow> (string \<times> Block) option" where
  "mine_while b digest success =
     (if \<not> success then
        (let b1 = b\<lparr>nonce := map_option (\<lambda>n. n + 1) (nonce b)\<rparr>;
             data = str_dict (header_to_dict b1);
             r = validate_difficulty b1 data
         in mine_while b1 (fst r) (snd r))
      else Some (digest, b))"

definition mine :: "Block \<Rightarrow> (string \<times> Block) option" where
  "mine b =
     (let b0 = b\<lparr>nonce := Some 0\<rparr>;
          data = str_dict (header_to_dict b0);
          r = validate_difficulty b0 data
      in mine_while b0 (fst r) (snd r))"

subsection \<open>Blockchain\<close>

datatype error = IndexError | EmptyChainError

text \<open>
  \<open>EmptyChainError\<close> is the name the specification gives to the failure of mining on an
  empty chain; the program defines no exception of its own, and nothing in it raises one
  of that name.
\<close>

record Blockchain =
  bc_lst :: "Block list"
  bc_count :: int
  last_hash :: string

definition Blockchain_init :: Blockchain where
  "Blockchain_init = \<lparr>bc_lst = [], bc_count = 0, last_hash = []\<rparr>"


text \<open>
  Python's \<open>xs[i]\<close>: a negative index counts from the end, an index out of range raises
  \<open>IndexError\<close>. The result is the position read.
\<close>

definition list_index :: "'a list \<Rightarrow> int \<Rightarrow> error + nat" where
  "list_index xs i =
     (if 0 \<le> i \<and> i < int (length xs) then Inr (nat i)
      else if i < 0 \<and> 0 \<le> int (length xs) + i then Inr (nat (int (length xs) + i))
      else Inl IndexError)"

text \<open>
  \<open>mine_last_block\<close>: \<open>self.last_hash = self.lst[self.count-1].mine()\<close>. The block is
  mined in place; \<open>last_hash\<close> is assigned only when \<open>mine\<close> has returned. An exception
  comes with the state of the chain at the moment it is raised.
\<close>

definition mine_last_block :: "Blockchain \<Rightarrow> (error \<times> Blockchain + Blockchain) option" where
  "mine_last_block bc =
     (case list_index (bc_lst bc) (bc_count bc - 1) of
        Inl e \<Rightarrow> Some (Inl (e, bc))
      | Inr i \<Rightarrow>
          (case mine (bc_lst bc ! i) of
             None \<Rightarrow> None
           | Some (digest, b') \<Rightarrow>
               Some (Inr (bc\<lparr>bc_lst := (bc_lst bc)[i := b'], last_hash := digest\<rparr>))))"


subsection \<open>Notions used in the statements\<close>

text \<open>
  The digest of the header of \<open>b\<close> at nonce \<open>n\<close>, and whether it passes the check of
  \<open>validate_difficulty\<close>.
\<close>

definition header_digest :: "Block \<Rightarrow> int \<Rightarrow> string" where
  "header_digest b n = sha256 (str_dict (header_to_dict (b\<lparr>nonce := Some n\<rparr>)))"

definition accepts :: "Block \<Rightarrow> int \<Rightarrow> bool" where
  "accepts b n = endswith (header_digest b n) (str_mul ''0'' (difficulty b))"

definition is_hex :: "string \<Rightarrow> bool" where
  "is_hex s = list_all (\<lambda>c. c \<in> set hex_digits) s"


text \<open>The numbers that \<open>repr\<close> of a datetime prints.\<close>

definition datetime_fields :: "datetime \<Rightarrow> nat list" where
  "datetime_fields t =
     (if microsecond t \<noteq> 0
        then [year t, month t, day t, hour t, minute t, second t, microsecond t]
      else if second t \<noteq> 0 then [year t, month t, day t, hour t, minute t, second t]
      else [year t, month t, day t, hour t, minute t])"

section \<open>Concrete inputs\<close>

definition nodeA :: Node where
  "nodeA = \<lparr>name = ''arad'', private_key = \<lparr>rsa_n = 3233, rsa_e = 17, rsa_d = 413\<rparr>\<rparr>"

definition nodeB :: Node where
  "nodeB = \<lparr>name = ''alon'', private_key = \<lparr>rsa_n = 2773, rsa_e = 17, rsa_d = 157\<rparr>\<rparr>"

definition time0 :: datetime where
  "time0 = \<lparr>year = 2024, month = 5, day = 17, hour = 9, minute = 30, second = 0,
             microsecond = 0, dt_fold = False\<rparr>"

text \<open>A heap with one pool, at address 0, holding one transfer.\<close>

definition heap1 :: heap where
  "heap1 = transfer (snd (Transactions_init heap_empty)) 0 nodeA nodeB 10 time0"

text \<open>
  A small stand-in for the two RSA operations, for concrete runs: it is not PKCS#1.
\<close>

definition toy_crypto :: crypto where
  "toy_crypto = \<lparr>export_key = (\<lambda>k. be_bytes 2 (rsa_n k) @ be_bytes 1 (rsa_e k)),
                  pkcs1_sign = (\<lambda>k h. be_bytes 2 (rsa_d k) @ take 2 h)\<rparr>"

definition block1 :: Block where
  "block1 = fst (Block_init toy_crypto heap1 0 [] 0)"


definition heap0 :: heap where
  "heap0 = snd (Transactions_init heap_empty)"

definition block0 :: Block where
  "block0 = fst (Block_init toy_crypto heap0 0 [] 0)"

definition tx1 :: Transaction where
  "tx1 = Transaction_init nodeA nodeB 10 time0"

section \<open>Properties\<close>

subsection \<open>SHA-256 of the empty message\<close>

lemma sched_numeral:
  "sched (numeral k) ws =
     (ssig1 (ws ! 14) + ws ! 9 + ssig0 (ws ! 1) + ws ! 0)
       # sched (pred_numeral k) (tl ws @ [ssig1 (ws ! 14) + ws ! 9 + ssig0 (ws ! 1) + ws ! 0])"
  by (simp add: numeral_eq_Suc Let_def)

lemma be_bytes_8_0: "be_bytes 8 0 = [0, 0, 0, 0, 0, 0, 0, 0]"
  by (simp add: be_bytes_def upt_rec)

lemma replicate_55: "replicate 55 (0::byte) = [0, 0, 0, 0, 0, 0, 0, 0, 0, 0, 0, 0, 0, 0, 0, 0, 0, 0, 0, 0, 0, 0, 0, 0, 0, 0, 0, 0, 0, 0, 0, 0, 0, 0, 0, 0, 0, 0, 0, 0, 0, 0, 0, 0, 0, 0, 0, 0, 0, 0, 0, 0, 0, 0, 0]"
  by (simp add: numeral_eq_Suc)

lemma pad_empty: "pad [] = 0x80 # [0, 0, 0, 0, 0, 0, 0, 0, 0, 0, 0, 0, 0, 0, 0, 0, 0, 0, 0, 0, 0, 0, 0, 0, 0, 0, 0, 0, 0, 0, 0, 0, 0, 0, 0, 0, 0, 0, 0, 0, 0, 0, 0, 0, 0, 0, 0, 0, 0, 0, 0, 0, 0, 0, 0] @ [0, 0, 0, 0, 0, 0, 0, 0]"
  by (simp add: pad_def be_bytes_8_0 replicate_55)

lemma blocks_Nil: "blocks [] = []"
  by (simp add: blocks.simps)

lemma blocks_Cons: "blocks (b # bs) = take 64 (b # bs) # blocks (drop 64 (b # bs))"
  by (subst blocks.simps) simp

lemma words_empty: "map be_words (blocks (pad [])) = [[0x80000000, 0, 0, 0, 0, 0, 0, 0, 0, 0, 0, 0, 0, 0, 0, 0]]"
  by (simp add: pad_empty blocks_Nil blocks_Cons)

lemma sched_empty:
  "sched 48 [0x80000000, 0, 0, 0, 0, 0, 0, 0, 0, 0, 0, 0, 0, 0, 0, 0] =
     [0x80000000, 0x00000000, 0x00205000, 0x00000000, 0x22000800, 0x00000000, 0x05089542, 0x80000000, 0x58080000, 0x0040A000, 0x00162505, 0x66001800, 0xD6222580, 0x14225508, 0xD645F95C, 0xC9282000, 0xC3F10094, 0x284CA766, 0x06886DC6, 0xA37BF116, 0x717CBE96, 0xFEC2D74A, 0xA7B67F00, 0x811596A2, 0x98A6E768, 0x03B20C82, 0x5D1DA7C9, 0xB156B935, 0xC3DDCA11, 0x249C107F, 0xC48D24EF, 0x5DE54C30, 0xDEFECE65, 0x2CA1480D, 0x3C15332C, 0x01CEC9AD, 0x160CCCD0, 0x0BACDA98, 0x361B8FE0, 0xD2320BA6, 0x029B7007, 0x7546587C, 0x07F54F39, 0xF808DDC3, 0xDCCA7608, 0x5E427188, 0x44BCEC5D, 0x3B5EC49B]"
  by (simp add: sched_numeral ssig0_def ssig1_def rotr_def)

lemma zip_empty:
  "zip K256 ([0x80000000, 0, 0, 0, 0, 0, 0, 0, 0, 0, 0, 0, 0, 0, 0, 0] @ sched 48 [0x80000000, 0, 0, 0, 0, 0, 0, 0, 0, 0, 0, 0, 0, 0, 0, 0])
     = [(0x428A2F98, 0x80000000), (0x71374491, 0x00000000), (0xB5C0FBCF, 0x00000000), (0xE9B5DBA5, 0x00000000), (0x3956C25B, 0x00000000), (0x59F111F1, 0x00000000), (0x923F82A4, 0x00000000), (0xAB1C5ED5, 0x00000000)] @ [(0xD807AA98, 0x00000000), (0x12835B01, 0x00000000), (0x243185BE, 0x00000000), (0x550C7DC3, 0x00000000), (0x72BE5D74, 0x00000000), (0x80DEB1FE, 0x00000000), (0x9BDC06A7, 0x00000000), (0xC19BF174, 0x00000000)] @ [(0xE49B69C1, 0x80000000), (0xEFBE4786, 0x00000000), (0x0FC19DC6, 0x00205000), (0x240CA1CC, 0x00000000), (0x2DE92C6F, 0x22000800), (0x4A7484AA, 0x00000000), (0x5CB0A9DC, 0x05089542), (0x76F988DA, 0x80000000)] @ [(0x983E5152, 0x58080000), (0xA831C66D, 0x0040A000), (0xB00327C8, 0x00162505), (0xBF597FC7, 0x66001800), (0xC6E00BF3, 0xD6222580), (0xD5A79147, 0x14225508), (0x06CA6351, 0xD645F95C), (0x14292967, 0xC9282000)] @ [(0x27B70A85, 0xC3F10094), (0x2E1B2138, 0x284CA766), (0x4D2C6DFC, 0x06886DC6), (0x53380D13, 0xA37BF116), (0x650A7354, 0x717CBE96), (0x766A0ABB, 0xFEC2D74A), (0x81C2C92E, 0xA7B67F00), (0x92722C85, 0x811596A2)] @ [(0xA2BFE8A1, 0x98A6E768), (0xA81A664B, 0x03B20C82), (0xC24B8B70, 0x5D1DA7C9), (0xC76C51A3, 0xB156B935), (0xD192E819, 0xC3DDCA11), (0xD6990624, 0x249C107F), (0xF40E3585, 0xC48D24EF), (0x106AA070, 0x5DE54C30)] @ [(0x19A4C116, 0xDEFECE65), (0x1E376C08, 0x2CA1480D), (0x2748774C, 0x3C15332C), (0x34B0BCB5, 0x01CEC9AD), (0x391C0CB3, 0x160CCCD0), (0x4ED8AA4A, 0x0BACDA98), (0x5B9CCA4F, 0x361B8FE0), (0x682E6FF3, 0xD2320BA6)] @ [(0x748F82EE, 0x029B7007), (0x78A5636F, 0x7546587C), (0x84C87814, 0x07F54F39), (0x8CC70208, 0xF808DDC3), (0x90BEFFFA, 0xDCCA7608), (0xA4506CEB, 0x5E427188), (0xBEF9A3F7, 0x44BCEC5D), (0xC67178F2, 0x3B5EC49B)]"
  by (simp add: sched_empty K256_def)

lemma rounds_0:
  "foldl round256 \<lparr>reg_a = 0x6A09E667, reg_b = 0xBB67AE85, reg_c = 0x3C6EF372, reg_d = 0xA54FF53A, reg_e = 0x510E527F, reg_f = 0x9B05688C, reg_g = 0x1F83D9AB, reg_h = 0x5BE0CD19\<rparr>
     [(0x428A2F98, 0x80000000), (0x71374491, 0x00000000), (0xB5C0FBCF, 0x00000000), (0xE9B5DBA5, 0x00000000), (0x3956C25B, 0x00000000), (0x59F111F1, 0x00000000), (0x923F82A4, 0x00000000), (0xAB1C5ED5, 0x00000000)]
     = \<lparr>reg_a = 0x7AD5B1B6, reg_b = 0xF0205590, reg_c = 0x292E3B42, reg_d = 0x4366F730, reg_e = 0x53F94DCB, reg_f = 0x82EDE06F, reg_g = 0x4F6540FA, reg_h = 0xE7D0641E\<rparr>"
  by (simp add: round256_def bsig0_def bsig1_def Ch_def Maj_def rotr_def Let_def)

lemma rounds_1:
  "foldl round256 \<lparr>reg_a = 0x7AD5B1B6, reg_b = 0xF0205590, reg_c = 0x292E3B42, reg_d = 0x4366F730, reg_e = 0x53F94DCB, reg_f = 0x82EDE06F, reg_g = 0x4F6540FA, reg_h = 0xE7D0641E\<rparr>
     [(0xD807AA98, 0x00000000), (0x12835B01, 0x00000000), (0x243185BE, 0x00000000), (0x550C7DC3, 0x00000000), (0x72BE5D74, 0x00000000), (0x80DEB1FE, 0x00000000), (0x9BDC06A7, 0x00000000), (0xC19BF174, 0x00000000)]
     = \<lparr>reg_a = 0xB40085B5, reg_b = 0xB88AFDDB, reg_c = 0x45C013A7, reg_d = 0x2102D2CD, reg_e = 0x5CB8E863, reg_f = 0x1CCFAC39, reg_g = 0x2B427296, reg_h = 0xCDFDFE52\<rparr>"
  by (simp add: round256_def bsig0_def bsig1_def Ch_def Maj_def rotr_def Let_def)

lemma rounds_2:
  "foldl round256 \<lparr>reg_a = 0xB40085B5, reg_b = 0xB88AFDDB, reg_c = 0x45C013A7, reg_d = 0x2102D2CD, reg_e = 0x5CB8E863, reg_f = 0x1CCFAC39, reg_g = 0x2B427296, reg_h = 0xCDFDFE52\<rparr>
     [(0xE49B69C1, 0x80000000), (0xEFBE4786, 0x00000000), (0x0FC19DC6, 0x00205000), (0x240CA1CC, 0x00000000), (0x2DE92C6F, 0x22000800), (0x4A7484AA, 0x00000000), (0x5CB0A9DC, 0x05089542), (0x76F988DA, 0x80000000)]
     = \<lparr>reg_a = 0x985BED55, reg_b = 0x404D8054, reg_c = 0x99A6CB19, reg_d = 0x75C7F0D8, reg_e = 0x2C2C028D, reg_f = 0xB1653710, reg_g = 0xC287981E, reg_h = 0x39953CCD\<rparr>"
  by (simp add: round256_def bsig0_def bsig1_def Ch_def Maj_def rotr_def Let_def)

lemma rounds_3:
  "foldl round256 \<lparr>reg_a = 0x985BED55, reg_b = 0x404D8054, reg_c = 0x99A6CB19, reg_d = 0x75C7F0D8, reg_e = 0x2C2C028D, reg_f = 0xB1653710, reg_g = 0xC287981E, reg_h = 0x39953CCD\<rparr>
     [(0x983E5152, 0x58080000), (0xA831C66D, 0x0040A000), (0xB00327C8, 0x00162505), (0xBF597FC7, 0x66001800), (0xC6E00BF3, 0xD6222580), (0xD5A79147, 0x14225508), (0x06CA6351, 0xD645F95C), (0x14292967, 0xC9282000)]
     = \<lparr>reg_a = 0x11E7025F, reg_b = 0xA0BB0CDF, reg_c = 0x72D3A00D, reg_d = 0x64BC9E1C, reg_e = 0xBBD7846C, reg_f = 0x564A6626, reg_g = 0xB04AB22D, reg_h = 0x95696B75\<rparr>"
  by (simp add: round256_def bsig0_def bsig1_def Ch_def Maj_def rotr_def Let_def)

lemma rounds_4:
  "foldl round256 \<lparr>reg_a = 0x11E7025F, reg_b = 0xA0BB0CDF, reg_c = 0x72D3A00D, reg_d = 0x64BC9E1C, reg_e = 0xBBD7846C, reg_f = 0x564A6626, reg_g = 0xB04AB22D, reg_h = 0x95696B75\<rparr>
     [(0x27B70A85, 0xC3F10094), (0x2E1B2138, 0x284CA766), (0x4D2C6DFC, 0x06886DC6), (0x53380D13, 0xA37BF116), (0x650A7354, 0x717CBE96), (0x766A0ABB, 0xFEC2D74A), (0x81C2C92E, 0xA7B67F00), (0x92722C85, 0x811596A2)]
     = \<lparr>reg_a = 0x499911B1, reg_b = 0x9E58E42F, reg_c = 0x56E3DC4E, reg_d = 0xA096535D, reg_e = 0x716BB025, reg_f = 0x85A71424, reg_g = 0xE807EA7F, reg_h = 0xFAC06AED\<rparr>"
  by (simp add: round256_def bsig0_def bsig1_def Ch_def Maj_def rotr_def Let_def)

lemma rounds_5:
  "foldl round256 \<lparr>reg_a = 0x499911B1, reg_b = 0x9E58E42F, reg_c = 0x56E3DC4E, reg_d = 0xA096535D, reg_e = 0x716BB025, reg_f = 0x85A71424, reg_g = 0xE807EA7F, reg_h = 0xFAC06AED\<rparr>
     [(0xA2BFE8A1, 0x98A6E768), (0xA81A664B, 0x03B20C82), (0xC24B8B70, 0x5D1DA7C9), (0xC76C51A3, 0xB156B935), (0xD192E819, 0xC3DDCA11), (0xD6990624, 0x249C107F), (0xF40E3585, 0xC48D24EF), (0x106AA070, 0x5DE54C30)]
     = \<lparr>reg_a = 0x365A34CD, reg_b = 0x54982D6C, reg_c = 0x32FA442B, reg_d = 0xA40972D4, reg_e = 0xCBB3F8EB, reg_f = 0x8A6A82B2, reg_g = 0xD285C679, reg_h = 0xAA2C1810\<rparr>"
  by (simp add: round256_def bsig0_def bsig1_def Ch_def Maj_def rotr_def Let_def)

lemma rounds_6:
  "foldl round256 \<lparr>reg_a = 0x365A34CD, reg_b = 0x54982D6C, reg_c = 0x32FA442B, reg_d = 0xA40972D4, reg_e = 0xCBB3F8EB, reg_f = 0x8A6A82B2, reg_g = 0xD285C679, reg_h = 0xAA2C1810\<rparr>
     [(0x19A4C116, 0xDEFECE65), (0x1E376C08, 0x2CA1480D), (0x2748774C, 0x3C15332C), (0x34B0BCB5, 0x01CEC9AD), (0x391C0CB3, 0x160CCCD0), (0x4ED8AA4A, 0x0BACDA98), (0x5B9CCA4F, 0x361B8FE0), (0x682E6FF3, 0xD2320BA6)]
     = \<lparr>reg_a = 0x01638014, reg_b = 0x2CAF58CA, reg_c = 0x3A0E9477, reg_d = 0xB1B29C90, reg_e = 0xADF94E0A, reg_f = 0xE588E598, reg_g = 0xFD99936E, reg_h = 0x43A5DEF8\<rparr>"
  by (simp add: round256_def bsig0_def bsig1_def Ch_def Maj_def rotr_def Let_def)

lemma rounds_7:
  "foldl round256 \<lparr>reg_a = 0x01638014, reg_b = 0x2CAF58CA, reg_c = 0x3A0E9477, reg_d = 0xB1B29C90, reg_e = 0xADF94E0A, reg_f = 0xE588E598, reg_g = 0xFD99936E, reg_h = 0x43A5DEF8\<rparr>
     [(0x748F82EE, 0x029B7007), (0x78A5636F, 0x7546587C), (0x84C87814, 0x07F54F39), (0x8CC70208, 0xF808DDC3), (0x90BEFFFA, 0xDCCA7608), (0xA4506CEB, 0x5E427188), (0xBEF9A3F7, 0x44BCEC5D), (0xC67178F2, 0x3B5EC49B)]
     = \<lparr>reg_a = 0x79A6DDDB, reg_b = 0xDD946D8F, reg_c = 0x5E8D0156, reg_d = 0xF41FC3EA, reg_e = 0xD69FEF65, reg_f = 0xC9962AC0, reg_g = 0x8511BF70, reg_h = 0x1C71EB3C\<rparr>"
  by (simp add: round256_def bsig0_def bsig1_def Ch_def Maj_def rotr_def Let_def)

lemma rounds_empty:
  "foldl round256 H256 (zip K256 ([0x80000000, 0, 0, 0, 0, 0, 0, 0, 0, 0, 0, 0, 0, 0, 0, 0] @ sched 48 [0x80000000, 0, 0, 0, 0, 0, 0, 0, 0, 0, 0, 0, 0, 0, 0, 0]))
     = \<lparr>reg_a = 0x79A6DDDB, reg_b = 0xDD946D8F, reg_c = 0x5E8D0156, reg_d = 0xF41FC3EA, reg_e = 0xD69FEF65, reg_f = 0xC9962AC0, reg_g = 0x8511BF70, reg_h = 0x1C71EB3C\<rparr>"
  unfolding zip_empty foldl_append H256_def
    rounds_0 rounds_1 rounds_2 rounds_3 rounds_4 rounds_5 rounds_6 rounds_7 ..

lemma compress_empty:
  "compress H256 [0x80000000, 0, 0, 0, 0, 0, 0, 0, 0, 0, 0, 0, 0, 0, 0, 0]
     = \<lparr>reg_a = 0xE3B0C442, reg_b = 0x98FC1C14, reg_c = 0x9AFBF4C8, reg_d = 0x996FB924, reg_e = 0x27AE41E4, reg_f = 0x649B934C, reg_g = 0xA495991B, reg_h = 0x7852B855\<rparr>"
  unfolding compress_def rounds_empty by (simp add: H256_def)

text \<open>The digest of the empty message, as FIPS 180-4 and hashlib give it.\<close>

lemma sha256_empty:
  "sha256 [] = ''e3b0c44298fc1c149afbf4c8996fb92427ae41e4649b934ca495991b7852b855''"
  by (simp add: sha256_def sha256_bytes_def utf8_encode_def words_empty compress_empty
      digest_bytes_def word_bytes_def hexlify_def hex_byte_def hex_digit_def hex_digits_def)

subsection \<open>The pool: count, snapshot and clear\<close>

lemma copy_facts:
  assumes "Transactions_copy h p = (s, h1)" and "allocated h p"
  shows "s = next_pool h"
    and "next_pool h1 = Suc (next_pool h)"
    and "next_list h1 = Suc (Suc (next_list h))"
    and "pool_store h1 = (pool_store h)(s := \<lparr>tx_lst = Suc (next_list h), tx_count = tx_count (pool_store h p)\<rparr>)"
    and "list_store h1 = (list_store h)(next_list h := [], Suc (next_list h) := list_store h (tx_lst (pool_store h p)))"
  using assms
  by (auto simp: allocated_def Transactions_copy_def Transactions_init_def new_list_def Let_def
      split: prod.splits)

lemma heap1_allocated: "allocated heap1 0"
  by (simp add: allocated_def heap1_def transfer_def Transactions_init_def new_list_def
      heap_empty_def Let_def)

lemma heap_ok_allocated: "heap_ok h \<Longrightarrow> p < next_pool h \<Longrightarrow> allocated h p"
  by (simp add: heap_ok_def allocated_def)

lemma heap_ok_empty: "heap_ok heap_empty"
  by (simp add: heap_ok_def heap_empty_def)

lemma heap_ok_init: "heap_ok h \<Longrightarrow> heap_ok (snd (Transactions_init h))"
  by (auto simp: heap_ok_def count_ok_def pool_seq_def pool_count_def Transactions_init_def
      new_list_def Let_def less_Suc_eq)

lemma heap_ok_transfer: "heap_ok h \<Longrightarrow> p < next_pool h \<Longrightarrow> heap_ok (transfer h p s r v now)"
  by (auto simp: heap_ok_def count_ok_def pool_seq_def pool_count_def transfer_def Let_def)

lemma heap_ok_clear: "heap_ok h \<Longrightarrow> p < next_pool h \<Longrightarrow> heap_ok (clear h p)"
  by (auto simp: heap_ok_def count_ok_def pool_seq_def pool_count_def clear_def Let_def)

lemma heap_ok_copy: "heap_ok h \<Longrightarrow> p < next_pool h \<Longrightarrow> heap_ok (snd (Transactions_copy h p))"
  by (auto simp: heap_ok_def count_ok_def pool_seq_def pool_count_def Transactions_copy_def
      Transactions_init_def new_list_def Let_def less_Suc_eq)

lemma heap_ok_count: "heap_ok h \<Longrightarrow> p < next_pool h \<Longrightarrow> count_ok h p"
  by (simp add: heap_ok_def)

text \<open>
  C7. The count of a pool is the length of its sequence: this holds of the empty heap and
  of a pool fresh from the constructor, and appending a transfer, clearing and copying
  keep it, for the pool operated on, for the copy, and for every other pool of the heap
  (\<open>heap_ok\<close> states it of all allocated pools, with the separation of their list objects
  that the operations rely on).
\<close>

theorem count_invariant:
  "heap_ok heap_empty \<and>
   (heap_ok h \<longrightarrow>
      heap_ok (snd (Transactions_init h)) \<and>
      count_ok (snd (Transactions_init h)) (fst (Transactions_init h)) \<and>
      (\<forall>p < next_pool h.
         count_ok h p \<and>
         heap_ok (transfer h p s r v now) \<and> count_ok (transfer h p s r v now) p \<and>
         heap_ok (clear h p) \<and> count_ok (clear h p) p \<and>
         heap_ok (snd (Transactions_copy h p)) \<and>
         count_ok (snd (Transactions_copy h p)) (fst (Transactions_copy h p)) \<and>
         count_ok (snd (Transactions_copy h p)) p))"
proof -
  have init: "count_ok (snd (Transactions_init h)) (fst (Transactions_init h))" for h
    by (simp add: count_ok_def pool_seq_def pool_count_def Transactions_init_def new_list_def Let_def)
  have tr: "count_ok (transfer h p s r v now) p" if "heap_ok h" "p < next_pool h" for p
    using heap_ok_count[OF heap_ok_transfer[OF that]] that(2)
    by (simp add: transfer_def Let_def)
  have cl: "count_ok (clear h p) p" for p
    by (simp add: count_ok_def pool_seq_def pool_count_def clear_def Let_def)
  have cp: "count_ok (snd (Transactions_copy h p)) (fst (Transactions_copy h p))
            \<and> count_ok (snd (Transactions_copy h p)) p" if "heap_ok h" "p < next_pool h" for p
  proof -
    obtain c h1 where eq: "Transactions_copy h p = (c, h1)" by (cases "Transactions_copy h p")
    note f = copy_facts[OF eq heap_ok_allocated[OF that]]
    have "heap_ok h1" using heap_ok_copy[OF that] eq by simp
    then show ?thesis using eq f(1,2) that(2)
      by (simp add: heap_ok_count)
  qed
  show ?thesis
  proof (intro conjI impI allI)
    show "heap_ok heap_empty" by (rule heap_ok_empty)
  next
    assume "heap_ok h" then show "heap_ok (snd (Transactions_init h))" by (rule heap_ok_init)
  next
    show "count_ok (snd (Transactions_init h)) (fst (Transactions_init h))" by (rule init)
  next
    fix p assume ok: "heap_ok h" and p: "p < next_pool h"
    show "count_ok h p" by (rule heap_ok_count[OF ok p])
    show "heap_ok (transfer h p s r v now)" by (rule heap_ok_transfer[OF ok p])
    show "count_ok (transfer h p s r v now) p" by (rule tr[OF ok p])
    show "heap_ok (clear h p)" by (rule heap_ok_clear[OF ok p])
    show "count_ok (clear h p) p" by (rule cl)
    show "heap_ok (snd (Transactions_copy h p))" by (rule heap_ok_copy[OF ok p])
    show "count_ok (snd (Transactions_copy h p)) (fst (Transactions_copy h p))"
      using cp[OF ok p] by simp
    show "count_ok (snd (Transactions_copy h p)) p"
      using cp[OF ok p] by simp
  qed
qed

theorem count_invariant_witness:
  "heap_ok heap1 \<and> 0 < next_pool heap1 \<and> pool_count heap1 0 = 1 \<and> count_ok heap1 0 \<and>
   count_ok (transfer heap1 0 nodeB nodeA 7 time0) 0 \<and>
   count_ok (clear heap1 0) 0 \<and>
   count_ok (snd (Transactions_copy heap1 0)) (fst (Transactions_copy heap1 0))"
proof -
  have a: "heap_ok (snd (Transactions_init heap_empty))"
    using count_invariant [of heap_empty] by simp
  have b: "0 < next_pool (snd (Transactions_init heap_empty))"
    by (simp add: Transactions_init_def new_list_def heap_empty_def Let_def)
  have c: "heap_ok heap1"
    unfolding heap1_def
    using count_invariant [of "snd (Transactions_init heap_empty)" nodeA nodeB 10 time0,
        THEN conjunct2, THEN mp, OF a, THEN conjunct2, THEN conjunct2, rule_format, OF b]
    by simp
  have d: "0 < next_pool heap1" "pool_count heap1 0 = 1"
    by (simp_all add: pool_count_def heap1_def transfer_def Transactions_init_def new_list_def
        heap_empty_def Let_def)
  show ?thesis
    using count_invariant [of heap1 nodeB nodeA 7 time0,
        THEN conjunct2, THEN mp, OF c, THEN conjunct2, THEN conjunct2, rule_format, OF d(1)] c d
    by simp
qed

text \<open>
  C5. A snapshot of an allocated pool, followed by clearing the original, leaves the
  sequence and the count of the snapshot as the original had them; the original is empty.
\<close>

theorem snapshot_isolated:
  assumes "allocated h p" and "Transactions_copy h p = (s, h1)"
  shows "pool_seq (clear h1 p) s = pool_seq h p \<and> pool_count (clear h1 p) s = pool_count h p
     \<and> pool_seq (clear h1 p) p = [] \<and> pool_count (clear h1 p) p = 0"
  using assms(1) copy_facts[OF assms(2) assms(1)]
  by (auto simp: allocated_def clear_def pool_seq_def pool_count_def Let_def)

theorem snapshot_isolated_witness:
  "allocated heap1 0
   \<and> pool_seq heap1 0 = [Transaction_init nodeA nodeB 10 time0]
   \<and> pool_seq (clear (snd (Transactions_copy heap1 0)) 0) (fst (Transactions_copy heap1 0))
       = pool_seq heap1 0
   \<and> pool_count (clear (snd (Transactions_copy heap1 0)) 0) (fst (Transactions_copy heap1 0))
       = pool_count heap1 0
   \<and> pool_seq (clear (snd (Transactions_copy heap1 0)) 0) 0 = []"
  using snapshot_isolated [of heap1 0 "fst (Transactions_copy heap1 0)"
      "snd (Transactions_copy heap1 0)"] heap1_allocated
  by (simp add: pool_seq_def heap1_def transfer_def Transactions_init_def new_list_def
      heap_empty_def Let_def)

subsection \<open>Mining on an empty chain\<close>

text \<open>
  C4, as the program has it. On a chain with no blocks \<open>mine_last_block\<close> raises Python's
  \<open>IndexError\<close> (the read \<open>self.lst[self.count-1]\<close> fails), whatever the count, and the
  chain is as it was: sequence, count and \<open>last_hash\<close>.
\<close>

theorem mine_last_block_empty_chain:
  "mine_last_block \<lparr>bc_lst = [], bc_count = c, last_hash = lh\<rparr>
     = Some (Inl (IndexError, \<lparr>bc_lst = [], bc_count = c, last_hash = lh\<rparr>))"
  by (auto simp: mine_last_block_def list_index_def)

text \<open>The failure on the fresh chain is not an \<open>EmptyChainError\<close>.\<close>

theorem mine_last_block_not_EmptyChainError:
  "mine_last_block Blockchain_init \<noteq> Some (Inl (EmptyChainError, Blockchain_init))"
  by (simp add: mine_last_block_def Blockchain_init_def list_index_def)

subsection \<open>Mining, block construction and the chain\<close>

lemma validate_eq:
  "validate_difficulty b data = (sha256 data, endswith (sha256 data) (str_mul ''0'' (difficulty b)))"
  by (simp add: validate_difficulty_def Let_def)

lemma loop_unfold:
  "mine_while (b\<lparr>nonce := Some k\<rparr>) (header_digest b k) (accepts b k) =
     (if accepts b k then Some (header_digest b k, b\<lparr>nonce := Some k\<rparr>)
      else mine_while (b\<lparr>nonce := Some (k + 1)\<rparr>) (header_digest b (k + 1)) (accepts b (k + 1)))"
  by (subst mine_while.simps)
     (simp add: Let_def validate_eq header_digest_def accepts_def)

lemma mine_start:
  "mine b = mine_while (b\<lparr>nonce := Some 0\<rparr>) (header_digest b 0) (accepts b 0)"
  by (simp add: mine_def Let_def validate_eq header_digest_def accepts_def)

lemma loop_sound_aux:
  assumes run: "mine_while b0 dg0 s0 = Some y"
  shows "\<forall>k. b0 = b\<lparr>nonce := Some k\<rparr> \<and> dg0 = header_digest b k \<and> s0 = accepts b k \<longrightarrow>
      (\<exists>m\<ge>k. y = (header_digest b m, b\<lparr>nonce := Some m\<rparr>) \<and> accepts b m
             \<and> (\<forall>j. k \<le> j \<and> j < m \<longrightarrow> \<not> accepts b j))"
proof (rule mine_while.raw_induct[where P = "\<lambda>b0 dg0 s0 y.
      \<forall>k. b0 = b\<lparr>nonce := Some k\<rparr> \<and> dg0 = header_digest b k \<and> s0 = accepts b k \<longrightarrow>
      (\<exists>m\<ge>k. y = (header_digest b m, b\<lparr>nonce := Some m\<rparr>) \<and> accepts b m
             \<and> (\<forall>j. k \<le> j \<and> j < m \<longrightarrow> \<not> accepts b j))", OF _ run])
  fix f :: "Block \<Rightarrow> string \<Rightarrow> bool \<Rightarrow> (string \<times> Block) option"
  fix c0 :: Block and dg s and y :: "string \<times> Block"
  assume IH: "\<And>c d t z. f c d t = Some z \<Longrightarrow>
      \<forall>k. c = b\<lparr>nonce := Some k\<rparr> \<and> d = header_digest b k \<and> t = accepts b k \<longrightarrow>
      (\<exists>m\<ge>k. z = (header_digest b m, b\<lparr>nonce := Some m\<rparr>) \<and> accepts b m
             \<and> (\<forall>j. k \<le> j \<and> j < m \<longrightarrow> \<not> accepts b j))"
  assume body: "(if \<not> s
      then let b1 = c0\<lparr>nonce := map_option (\<lambda>n. n + 1) (nonce c0)\<rparr>;
               data = str_dict (header_to_dict b1);
               r = validate_difficulty b1 data
           in f b1 (fst r) (snd r)
      else Some (dg, c0)) = Some y"
  show "\<forall>k. c0 = b\<lparr>nonce := Some k\<rparr> \<and> dg = header_digest b k \<and> s = accepts b k \<longrightarrow>
      (\<exists>m\<ge>k. y = (header_digest b m, b\<lparr>nonce := Some m\<rparr>) \<and> accepts b m
             \<and> (\<forall>j. k \<le> j \<and> j < m \<longrightarrow> \<not> accepts b j))"
  proof (intro allI impI)
    fix k
    assume st: "c0 = b\<lparr>nonce := Some k\<rparr> \<and> dg = header_digest b k \<and> s = accepts b k"
    show "\<exists>m\<ge>k. y = (header_digest b m, b\<lparr>nonce := Some m\<rparr>) \<and> accepts b m
             \<and> (\<forall>j. k \<le> j \<and> j < m \<longrightarrow> \<not> accepts b j)"
    proof (cases "accepts b k")
      case True
      with body st have "y = (header_digest b k, b\<lparr>nonce := Some k\<rparr>)" by simp
      with True show ?thesis by (intro exI[of _ k]) auto
    next
      case False
      with body st have
        "f (b\<lparr>nonce := Some (k + 1)\<rparr>) (header_digest b (k + 1)) (accepts b (k + 1)) = Some y"
        by (simp add: Let_def validate_eq header_digest_def accepts_def)
      from IH[OF this, rule_format, of "k + 1"]
      obtain m where m: "k + 1 \<le> m" "y = (header_digest b m, b\<lparr>nonce := Some m\<rparr>)" "accepts b m"
        "\<forall>j. k + 1 \<le> j \<and> j < m \<longrightarrow> \<not> accepts b j" by auto
      have "\<not> accepts b j" if j: "k \<le> j \<and> j < m" for j
      proof (cases "j = k")
        case True then show ?thesis using False by simp
      next
        case False then show ?thesis using m(4) j by auto
      qed
      with m show ?thesis by (intro exI[of _ m]) auto
    qed
  qed
qed

lemma mine_sound:
  assumes "mine b = Some (dg, b')"
  shows "\<exists>m\<ge>0. dg = header_digest b m \<and> b' = b\<lparr>nonce := Some m\<rparr> \<and> accepts b m
             \<and> (\<forall>j. 0 \<le> j \<and> j < m \<longrightarrow> \<not> accepts b j)"
  using loop_sound_aux[OF assms[unfolded mine_start], where b = b, THEN spec, of 0] by simp

lemma loop_complete:
  "accepts b n \<Longrightarrow> k \<le> n \<Longrightarrow>
   mine_while (b\<lparr>nonce := Some k\<rparr>) (header_digest b k) (accepts b k) \<noteq> None"
proof (induction "nat (n - k)" arbitrary: k)
  case 0
  then have "k = n" by simp
  with 0 show ?case by (subst loop_unfold) simp
next
  case (Suc d)
  show ?case
  proof (cases "accepts b k")
    case True then show ?thesis by (subst loop_unfold) simp
  next
    case False
    have "d = nat (n - (k + 1))" "k + 1 \<le> n" using Suc(2) by auto
    from Suc(1)[OF this(1) Suc(3) this(2)] False show ?thesis
      by (subst loop_unfold) simp
  qed
qed

lemma mine_complete: "accepts b n \<Longrightarrow> 0 \<le> n \<Longrightarrow> mine b \<noteq> None"
  unfolding mine_start by (rule loop_complete)

lemma length_hexlify: "length (hexlify bs) = 2 * length bs"
  by (induction bs) (simp_all add: hexlify_def hex_byte_def)

lemma length_sha256: "length (sha256 m) = 64"
  by (simp add: sha256_def length_hexlify sha256_bytes_def digest_bytes_def word_bytes_def)

lemma hex_digit_mem: "n < 16 \<Longrightarrow> hex_digit n \<in> set hex_digits"
  unfolding hex_digit_def by (rule nth_mem) (simp add: hex_digits_def)

lemma is_hex_hexlify: "is_hex (hexlify bs)"
proof -
  have "unat b div 16 < 16" for b :: byte
    using unsigned_less[of b, where 'a = nat] by simp
  then show ?thesis
    by (induction bs) (simp_all add: is_hex_def hexlify_def hex_byte_def hex_digit_mem)
qed

lemma is_hex_sha256: "is_hex (sha256 m)"
  by (simp add: sha256_def is_hex_hexlify)



lemma accept_nonpositive: "difficulty b \<le> 0 \<Longrightarrow> accepts b n"
  by (simp add: accepts_def endswith_def str_mul_def)

lemma mine_nonpositive:
  "difficulty b \<le> 0 \<Longrightarrow> mine b = Some (header_digest b 0, b\<lparr>nonce := Some 0\<rparr>)"
  unfolding mine_start by (subst loop_unfold) (simp add: accept_nonpositive)


lemma sign_loop_concat: "sign_loop L acc ts = acc @ concat (map (sign L) ts)"
  by (induction ts arbitrary: acc) simp_all

lemma mine_idem:
  assumes "mine b = Some (dg, b')"
  shows "mine b' = Some (dg, b')"
proof -
  from mine_sound[OF assms] obtain m where m: "b' = b\<lparr>nonce := Some m\<rparr>" by auto
  have "mine b' = mine b" unfolding m mine_def by simp
  then show ?thesis using assms by simp
qed

lemma Block_init_fields:
  assumes "Block_init L h vt ph d = (b, h1)"
  shows "previous_hash b = ph" "difficulty b = d" "nonce b = None"
    "verified_transactions b = fst (Transactions_copy h vt)"
    "h1 = snd (Transactions_copy h vt)"
    "transaction_hash b = compute_transaction_hash L h1 (verified_transactions b)"
  using assms by (auto simp: Block_init_def split: prod.splits)


lemma block1_difficulty: "difficulty block1 = 0"
  by (simp add: block1_def Block_init_def split: prod.splits)




text \<open>
  C6. The hash of the transactions is set by the constructor, over the snapshot, which
  holds the sequence the pool had then; \<open>mine\<close> returns the block it was given with the
  nonce set and nothing else changed: the hash of the transactions, \<open>previous_hash\<close>,
  the difficulty and the reference to the snapshot are the constructor's. \<open>mine\<close> has
  no access to the store, so the snapshot's sequence is untouched as well.
\<close>

theorem mine_frame:
  assumes "allocated h vt" and "Block_init L h vt ph d = (b, h1)" and "mine b = Some (dg, b')"
  shows "transaction_hash b = sha256 (concat (map (sign L) (pool_seq h vt)))
     \<and> b' = b\<lparr>nonce := nonce b'\<rparr> \<and> nonce b = None \<and> nonce b' \<noteq> None
     \<and> transaction_hash b' = transaction_hash b \<and> previous_hash b' = ph \<and> difficulty b' = d
     \<and> verified_transactions b' = verified_transactions b
     \<and> pool_seq h1 (verified_transactions b') = pool_seq h vt"
proof -
  note f = Block_init_fields[OF assms(2)]
  obtain s where s: "Transactions_copy h vt = (s, h1)" using f(5) by (cases "Transactions_copy h vt") simp
  note c = copy_facts[OF s assms(1)]
  have snap: "pool_seq h1 s = pool_seq h vt"
    using c assms(1) by (auto simp: pool_seq_def allocated_def)
  have vs: "verified_transactions b = s" using f(4) s by simp
  from mine_sound[OF assms(3)] obtain m where m: "b' = b\<lparr>nonce := Some m\<rparr>" by auto
  have th: "transaction_hash b = sha256 (concat (map (sign L) (pool_seq h vt)))"
    using f(6) snap vs by (simp add: compute_transaction_hash_def sign_loop_concat pool_seq_def)
  show ?thesis using m f(1,2,3) th snap vs by simp
qed

theorem mine_frame_witness:
  "allocated heap1 0 \<and> transaction_hash (snd (the (mine block1))) = transaction_hash block1
   \<and> nonce block1 = None \<and> nonce (snd (the (mine block1))) = Some 0
   \<and> previous_hash (snd (the (mine block1))) = [] \<and> difficulty (snd (the (mine block1))) = 0"
proof -
  have r: "mine block1 = Some (header_digest block1 0, block1\<lparr>nonce := Some 0\<rparr>)"
    by (rule mine_nonpositive) (simp add: block1_difficulty)
  have i: "Block_init toy_crypto heap1 0 [] 0 = (block1, snd (Block_init toy_crypto heap1 0 [] 0))"
    by (simp add: block1_def)
  show ?thesis
    using mine_frame [OF heap1_allocated i r] heap1_allocated r by simp
qed

lemma header_digest_cong:
  assumes "previous_hash c = previous_hash b" "difficulty c = difficulty b"
    "transaction_hash c = transaction_hash b"
  shows "header_digest c n = header_digest b n" "accepts c n = accepts b n"
  using assms by (simp_all add: header_digest_def accepts_def header_to_dict_def)

lemma mine_header_only:
  assumes h: "previous_hash c = previous_hash b" "difficulty c = difficulty b"
    "transaction_hash c = transaction_hash b"
    and r: "mine b = Some (dg, b')"
  shows "\<exists>c'. mine c = Some (dg, c') \<and> nonce c' = nonce b'"
proof -
  note hc = header_digest_cong[OF h]
  from mine_sound[OF r] obtain m where m: "0 \<le> m" "dg = header_digest b m"
    "b' = b\<lparr>nonce := Some m\<rparr>" "accepts b m" "\<forall>j. 0 \<le> j \<and> j < m \<longrightarrow> \<not> accepts b j"
    by auto
  have "mine c \<noteq> None" using mine_complete[of c m] m(1,4) hc(2) by simp
  then obtain dg' c' where rc: "mine c = Some (dg', c')" by (cases "mine c") auto
  from mine_sound[OF rc] obtain k where k: "0 \<le> k" "dg' = header_digest c k"
    "c' = c\<lparr>nonce := Some k\<rparr>" "accepts c k" "\<forall>j. 0 \<le> j \<and> j < k \<longrightarrow> \<not> accepts c j"
    by auto
  have "\<not> k < m" using m(5) k(1,4) hc(2) by auto
  moreover have "\<not> m < k" using k(5) m(1,4) hc(2) by auto
  ultimately have "k = m" by simp
  with rc k m hc show ?thesis by simp
qed

text \<open>
  C10. Mining a mined block again starts from nonce 0, stops at the same nonce and
  returns the same proof hash, leaving the block as it was; more generally the nonce
  found and the proof hash are those of any block with the same \<open>previous_hash\<close>,
  difficulty and \<open>transaction_hash\<close>.
\<close>

theorem mine_idempotent:
  assumes "mine b = Some (dg, b')"
  shows "mine b' = Some (dg, b') \<and> (\<exists>n. nonce b' = Some n \<and> dg = header_digest b n)
     \<and> (\<forall>c. previous_hash c = previous_hash b \<and> difficulty c = difficulty b
              \<and> transaction_hash c = transaction_hash b
            \<longrightarrow> (\<exists>c'. mine c = Some (dg, c') \<and> nonce c' = nonce b'))"
proof -
  have "mine b' = Some (dg, b')" by (rule mine_idem[OF assms])
  moreover have "\<exists>n. nonce b' = Some n \<and> dg = header_digest b n"
    using mine_sound[OF assms] by auto
  moreover have "\<exists>c'. mine c = Some (dg, c') \<and> nonce c' = nonce b'"
    if "previous_hash c = previous_hash b \<and> difficulty c = difficulty b
        \<and> transaction_hash c = transaction_hash b" for c
    using mine_header_only[of c b dg b'] that assms by simp
  ultimately show ?thesis by simp
qed

theorem mine_idempotent_witness:
  "mine block1 = Some (header_digest block1 0, block1\<lparr>nonce := Some 0\<rparr>)
   \<and> mine (block1\<lparr>nonce := Some 0\<rparr>) = Some (header_digest block1 0, block1\<lparr>nonce := Some 0\<rparr>)"
proof -
  have r: "mine block1 = Some (header_digest block1 0, block1\<lparr>nonce := Some 0\<rparr>)"
    by (rule mine_nonpositive) (simp add: block1_difficulty)
  show ?thesis using mine_idempotent [OF r, THEN conjunct1] r by simp
qed









text \<open>
  C3. The constructor sets \<open>transaction_hash\<close> to the SHA-256 digest (64 hexadecimal
  characters, 256 bits) of the concatenation, in the order of the pool, of the
  hexadecimal signatures of its transactions; for an empty pool it is the digest of the
  empty string, \<open>e3b0c442...7852b855\<close>, whatever the other arguments.
\<close>

theorem transaction_hash_at_construction:
  assumes "allocated h vt" and "Block_init L h vt ph d = (b, h1)"
  shows "transaction_hash b = sha256 (concat (map (sign L) (pool_seq h vt)))
     \<and> list_all (\<lambda>t. is_hex (sign L t)) (pool_seq h vt)
     \<and> length (transaction_hash b) = 64 \<and> is_hex (transaction_hash b)
     \<and> (pool_seq h vt = [] \<longrightarrow>
          transaction_hash b = sha256 [] \<and>
          transaction_hash b
            = ''e3b0c44298fc1c149afbf4c8996fb92427ae41e4649b934ca495991b7852b855'')"
proof -
  note f = Block_init_fields[OF assms(2)]
  obtain s where s: "Transactions_copy h vt = (s, h1)" using f(5) by (cases "Transactions_copy h vt") simp
  note c = copy_facts[OF s assms(1)]
  have snap: "pool_seq h1 s = pool_seq h vt"
    using c assms(1) by (auto simp: pool_seq_def allocated_def)
  have vs: "verified_transactions b = s" using f(4) s by simp
  have th: "transaction_hash b = sha256 (concat (map (sign L) (pool_seq h vt)))"
    using f(6) snap vs by (simp add: compute_transaction_hash_def sign_loop_concat pool_seq_def)
  have hx: "list_all (\<lambda>t. is_hex (sign L t)) (pool_seq h vt)"
    by (simp add: list_all_iff sign_def Let_def is_hex_hexlify)
  show ?thesis using th hx by (simp add: length_sha256 is_hex_sha256 sha256_empty)
qed

lemma heap0_allocated: "allocated heap0 0"
  by (simp add: allocated_def heap0_def Transactions_init_def new_list_def heap_empty_def Let_def)

theorem transaction_hash_at_construction_witness:
  "allocated heap1 0 \<and> allocated heap0 0 \<and> pool_seq heap0 0 = []
   \<and> transaction_hash block1 = sha256 (sign toy_crypto (Transaction_init nodeA nodeB 10 time0))
   \<and> transaction_hash block0
       = ''e3b0c44298fc1c149afbf4c8996fb92427ae41e4649b934ca495991b7852b855''"
proof -
  have i1: "Block_init toy_crypto heap1 0 [] 0 = (block1, snd (Block_init toy_crypto heap1 0 [] 0))"
    by (simp add: block1_def)
  have i0: "Block_init toy_crypto heap0 0 [] 0 = (block0, snd (Block_init toy_crypto heap0 0 [] 0))"
    by (simp add: block0_def)
  have s1: "pool_seq heap1 0 = [Transaction_init nodeA nodeB 10 time0]"
    by (simp add: pool_seq_def heap1_def transfer_def Transactions_init_def new_list_def
        heap_empty_def Let_def)
  have s0: "pool_seq heap0 0 = []"
    by (simp add: pool_seq_def heap0_def Transactions_init_def new_list_def heap_empty_def Let_def)
  show ?thesis
    using transaction_hash_at_construction [OF heap1_allocated i1]
      transaction_hash_at_construction [OF heap0_allocated i0] s1 s0 heap1_allocated heap0_allocated
    by (simp add: sha256_empty)
qed

lemma split_at_first:
  "c \<notin> set xs \<Longrightarrow> c \<notin> set xs' \<Longrightarrow> xs @ c # ys = xs' @ c # ys' \<Longrightarrow> xs = xs' \<and> ys = ys'"
proof (induction xs arbitrary: xs')
  case Nil
  then show ?case by (cases xs') auto
next
  case (Cons x xs)
  then show ?case by (cases xs') auto
qed

lemma digit_char_inj: "i < 10 \<Longrightarrow> j < 10 \<Longrightarrow> digit_char i = digit_char j \<Longrightarrow> i = j"
  unfolding digit_char_def
  by (subst (asm) nth_eq_iff_index_eq) simp_all

lemma digit_char_mem: "i < 10 \<Longrightarrow> digit_char i \<in> set ''0123456789''"
  unfolding digit_char_def by (rule nth_mem) simp

lemma str_nat_digits: "set (str_nat n) \<subseteq> set ''0123456789''"
proof (induction n rule: str_nat.induct)
  case (1 n)
  show ?case
  proof (cases "n < 10")
    case True
    then show ?thesis using digit_char_mem[of n] by (subst str_nat.simps) simp
  next
    case False
    have "n mod 10 < 10" by simp
    from digit_char_mem[OF this] 1[OF False] False show ?thesis
      by (subst str_nat.simps) simp
  qed
qed

lemma str_nat_length: "length (str_nat n) = 1 \<longleftrightarrow> n < 10"
proof (cases "n < 10")
  case True then show ?thesis by (subst str_nat.simps) simp
next
  case False
  have "str_nat (n div 10) \<noteq> []" by (subst str_nat.simps) simp
  then show ?thesis using False by (subst str_nat.simps) (simp add: Suc_length_conv)
qed

lemma str_nat_small: "n < 10 \<Longrightarrow> str_nat n = [digit_char n]"
  by (subst str_nat.simps) simp

lemma str_nat_big: "\<not> n < 10 \<Longrightarrow> str_nat n = str_nat (n div 10) @ [digit_char (n mod 10)]"
  by (subst str_nat.simps) simp

lemma str_nat_inj: "str_nat n = str_nat m \<Longrightarrow> n = m"
proof (induction n arbitrary: m rule: str_nat.induct)
  case (1 n)
  show ?case
  proof (cases "n < 10")
    case True
    then have "length (str_nat m) = 1" using 1(2) str_nat_length[of n] by simp
    then have m: "m < 10" using str_nat_length[of m] by simp
    have "[digit_char n] = [digit_char m]"
      using 1(2) unfolding str_nat_small[OF True] str_nat_small[OF m] .
    then have "digit_char n = digit_char m" by simp
    then show ?thesis using True m by (rule digit_char_inj[rotated 2])
  next
    case False
    then have "length (str_nat m) \<noteq> 1" using 1(2) str_nat_length[of n] by simp
    then have m: "\<not> m < 10" using str_nat_length[of m] by simp
    have "str_nat (n div 10) @ [digit_char (n mod 10)] = str_nat (m div 10) @ [digit_char (m mod 10)]"
      using 1(2) unfolding str_nat_big[OF False] str_nat_big[OF m] .
    then have e: "str_nat (n div 10) = str_nat (m div 10)"
      "digit_char (n mod 10) = digit_char (m mod 10)"
      by simp_all
    have d: "n div 10 = m div 10" using 1(1)[OF False e(1)] .
    have r: "n mod 10 = m mod 10" using e(2) by (intro digit_char_inj) simp_all
    have "n = 10 * (n div 10) + n mod 10" by simp
    also have "\<dots> = 10 * (m div 10) + m mod 10" using d r by simp
    also have "\<dots> = m" by simp
    finally show ?thesis .
  qed
qed

lemma str_nat_nonempty: "str_nat n \<noteq> []"
proof (cases "n < 10")
  case True
  show ?thesis unfolding str_nat_small[OF True] by simp
next
  case False
  show ?thesis unfolding str_nat_big[OF False] by simp
qed

lemma str_nat_no_minus: "CHR ''-'' # xs \<noteq> str_nat n"
proof
  assume "CHR ''-'' # xs = str_nat n"
  then have "CHR ''-'' \<in> set (str_nat n)" by (metis list.set_intros(1))
  then have "CHR ''-'' \<in> set ''0123456789''" using str_nat_digits[of n] by (rule subsetD[rotated])
  then show False by simp
qed

lemma str_int_inj: "str_int i = str_int j \<Longrightarrow> i = j"
proof -
  assume e: "str_int i = str_int j"
  consider "i < 0" "j < 0" | "i < 0" "\<not> j < 0" | "\<not> i < 0" "j < 0" | "\<not> i < 0" "\<not> j < 0"
    by blast
  then show ?thesis
  proof cases
    case 1
    with e have "str_nat (nat (- i)) = str_nat (nat (- j))" by (simp add: str_int_def)
    then have "nat (- i) = nat (- j)" by (rule str_nat_inj)
    with 1 show ?thesis by simp
  next
    case 2
    with e have "CHR ''-'' # str_nat (nat (- i)) = str_nat (nat j)" by (simp add: str_int_def)
    then show ?thesis using str_nat_no_minus by blast
  next
    case 3
    with e have "CHR ''-'' # str_nat (nat (- j)) = str_nat (nat i)" by (simp add: str_int_def)
    then show ?thesis using str_nat_no_minus by blast
  next
    case 4
    with e have "str_nat (nat i) = str_nat (nat j)" by (simp add: str_int_def)
    then have "nat i = nat j" by (rule str_nat_inj)
    with 4 show ?thesis by simp
  qed
qed

lemma repr_char_hex_all: "list_all (\<lambda>c. repr_char (CHR 0x27) c = [c]) hex_digits"
  by (simp add: hex_digits_def repr_char_def printable_def)

lemma repr_char_hex: "c \<in> set hex_digits \<Longrightarrow> repr_char (CHR 0x27) c = [c]"
  using repr_char_hex_all by (simp add: list_all_iff)

lemma quote_not_hex: "CHR 0x27 \<notin> set hex_digits"
  by (simp add: hex_digits_def)

lemma is_hex_set: "is_hex s \<Longrightarrow> c \<in> set s \<Longrightarrow> c \<in> set hex_digits"
  by (simp add: is_hex_def list_all_iff)

lemma hex_no_quote: "is_hex s \<Longrightarrow> CHR 0x27 \<notin> set s"
  using is_hex_set quote_not_hex by blast

lemma repr_str_hex: "is_hex s \<Longrightarrow> repr_str s = CHR 0x27 # s @ [CHR 0x27]"
proof -
  assume h: "is_hex s"
  then have "concat (map (repr_char (CHR 0x27)) s) = s"
    by (induction s) (simp_all add: is_hex_def repr_char_hex)
  with hex_no_quote[OF h] show ?thesis by (simp add: repr_str_def Let_def)
qed

subsection \<open>The canonical form of a transaction and its signature\<close>

lemma repr_datetime_form:
  "repr_datetime t = ''datetime.datetime('' @ join_comma (map str_nat (datetime_fields t))
       @ (if dt_fold t then '', fold=1)'' else '')'')"
  by (simp add: repr_datetime_def datetime_fields_def Let_def butlast_append)

lemma join_comma_Cons:
  "join_comma (x # xs) = x @ concat (map (\<lambda>z. CHR '','' # CHR '' '' # z) xs)"
proof -
  have "((@) '', '') = (\<lambda>z. CHR '','' # CHR '' '' # z)" by (rule ext) simp
  then show ?thesis by (simp add: join_comma_def)
qed

lemma join_tail_inj:
  "\<forall>z \<in> set (x # xs) \<union> set (y # ys). c \<notin> set z \<Longrightarrow>
   x @ concat (map (\<lambda>z. c # d # z) xs) = y @ concat (map (\<lambda>z. c # d # z) ys) \<Longrightarrow>
   x = y \<and> xs = ys"
proof (induction xs arbitrary: x y ys)
  case Nil
  show ?case
  proof (cases ys)
    case Nil
    with Nil.prems show ?thesis by simp
  next
    case (Cons y' ys')
    with Nil.prems(2) have "x = y @ c # d # y' @ concat (map (\<lambda>z. c # d # z) ys')"
      by simp
    then have "c \<in> set x" by simp
    with Nil.prems(1) show ?thesis by simp
  qed
next
  case (Cons x' xs')
  show ?case
  proof (cases ys)
    case Nil
    with Cons.prems(2) have "y = x @ c # d # x' @ concat (map (\<lambda>z. c # d # z) xs')"
      by simp
    then have "c \<in> set y" by simp
    with Cons.prems(1) show ?thesis by simp
  next
    case (Cons y' ys')
    let ?r1 = "d # x' @ concat (map (\<lambda>z. c # d # z) xs')"
    let ?r2 = "d # y' @ concat (map (\<lambda>z. c # d # z) ys')"
    have e: "x @ c # ?r1 = y @ c # ?r2"
      using Cons.prems(2) Cons by simp
    have nx: "c \<notin> set x" and ny: "c \<notin> set y" using Cons.prems(1) by simp_all
    from split_at_first[OF nx ny e] have xy: "x = y" and r: "?r1 = ?r2" by simp_all
    have "\<forall>z \<in> set (x' # xs') \<union> set (y' # ys'). c \<notin> set z"
      using Cons.prems(1) Cons by simp
    from Cons.IH[OF this] r have "x' = y' \<and> xs' = ys'" by simp
    with xy Cons show ?thesis by simp
  qed
qed

lemma str_nat_no_comma: "CHR '','' \<notin> set (str_nat n)"
proof
  assume "CHR '','' \<in> set (str_nat n)"
  then have "CHR '','' \<in> set ''0123456789''" using str_nat_digits[of n] by (rule subsetD[rotated])
  then show False by simp
qed

lemma join_str_nat_inj:
  assumes "join_comma (map str_nat (a # as)) = join_comma (map str_nat (b # bs))"
  shows "a # as = b # bs"
proof -
  have e: "str_nat a @ concat (map (\<lambda>z. CHR '','' # CHR '' '' # z) (map str_nat as))
      = str_nat b @ concat (map (\<lambda>z. CHR '','' # CHR '' '' # z) (map str_nat bs))"
    using assms by (simp only: list.map join_comma_Cons)
  have "\<forall>z \<in> set (str_nat a # map str_nat as) \<union> set (str_nat b # map str_nat bs). CHR '','' \<notin> set z"
    using str_nat_no_comma by auto
  from join_tail_inj[OF this e] have "str_nat a = str_nat b" "map str_nat as = map str_nat bs"
    by simp_all
  moreover have "inj str_nat" by (rule injI) (rule str_nat_inj)
  ultimately show ?thesis by (simp add: str_nat_inj inj_map_eq_map)
qed

lemma str_nat_no_eq: "CHR ''='' \<notin> set (str_nat n)"
proof
  assume "CHR ''='' \<in> set (str_nat n)"
  then have "CHR ''='' \<in> set ''0123456789''" using str_nat_digits[of n] by (rule subsetD[rotated])
  then show False by simp
qed

lemma tail_no_eq:
  "CHR ''='' \<notin> set (concat (map (\<lambda>z. CHR '','' # CHR '' '' # z) (map str_nat as)))"
  by (induction as) (simp_all add: str_nat_no_eq)

lemma join_no_eq: "CHR ''='' \<notin> set (join_comma (map str_nat xs))"
proof (cases xs)
  case Nil then show ?thesis by (simp add: join_comma_def)
next
  case (Cons a as)
  show ?thesis unfolding Cons list.map join_comma_Cons
    using str_nat_no_eq[of a] tail_no_eq[of as] by simp
qed

lemma repr_datetime_inj:
  assumes "repr_datetime t1 = repr_datetime t2"
  shows "t1 = t2"
proof -
  let ?J1 = "join_comma (map str_nat (datetime_fields t1))"
  let ?J2 = "join_comma (map str_nat (datetime_fields t2))"
  have e: "?J1 @ (if dt_fold t1 then '', fold=1)'' else '')'')
         = ?J2 @ (if dt_fold t2 then '', fold=1)'' else '')'')"
    using assms unfolding repr_datetime_form by (simp only: same_append_eq)
  have ne: "CHR ''='' \<notin> set ?J1" "CHR ''='' \<notin> set ?J2"
    by (rule join_no_eq)+
  have f: "dt_fold t1 = dt_fold t2"
  proof (rule ccontr)
    assume d: "dt_fold t1 \<noteq> dt_fold t2"
    show False
    proof (cases "dt_fold t1")
      case True
      with d e have "(?J1 @ '', fold=1'') @ '')'' = ?J2 @ '')''" by simp
      then have "?J1 @ '', fold=1'' = ?J2" by (simp only: append_same_eq)
      moreover have "CHR ''='' \<in> set (?J1 @ '', fold=1'')" by simp
      ultimately have "CHR ''='' \<in> set ?J2" by (simp only:)
      with ne show False by simp
    next
      case False
      with d e have "?J1 @ '')'' = (?J2 @ '', fold=1'') @ '')''" by simp
      then have "?J1 = ?J2 @ '', fold=1''" by (simp only: append_same_eq)
      moreover have "CHR ''='' \<in> set (?J2 @ '', fold=1'')" by simp
      ultimately have "CHR ''='' \<in> set ?J1" by (simp only:)
      with ne show False by simp
    qed
  qed
  with e have j: "?J1 = ?J2" by (simp only: append_same_eq)
  obtain a as where c1: "datetime_fields t1 = a # as" by (cases "datetime_fields t1") (auto simp: datetime_fields_def split: if_splits)
  obtain b bs where c2: "datetime_fields t2 = b # bs" by (cases "datetime_fields t2") (auto simp: datetime_fields_def split: if_splits)
  from j have "datetime_fields t1 = datetime_fields t2"
    unfolding c1 c2 by (rule join_str_nat_inj)
  then have "year t1 = year t2 \<and> month t1 = month t2 \<and> day t1 = day t2 \<and> hour t1 = hour t2
      \<and> minute t1 = minute t2 \<and> second t1 = second t2 \<and> microsecond t1 = microsecond t2"
    by (auto simp: datetime_fields_def split: if_splits)
  with f show ?thesis by simp
qed

lemma str_int_no_comma: "CHR '','' \<notin> set (str_int i)"
  using str_nat_no_comma by (simp add: str_int_def)

lemma is_hex_identity: "is_hex (identity L nd)"
  by (simp add: identity_def is_hex_hexlify)

lemma canonical_shape:
  "canonical_form L t =
     (''{'' @ repr_str ''sender'' @ '': '' @ [CHR 0x27]) @ identity L (sender t) @ CHR 0x27 #
     ('', '' @ repr_str ''receiver'' @ '': '' @ [CHR 0x27]) @ identity L (receiver t) @ CHR 0x27 #
     ('', '' @ repr_str ''value'' @ '': '') @ str_int (val t) @ CHR '','' #
     ('' '' @ repr_str ''time'' @ '': '') @ repr_datetime (timestamp t) @ ''}''"
  by (simp add: canonical_form_def str_dict_def to_dict_def join_comma_def repr_str_hex
      is_hex_identity)

text \<open>
  C8. Two transactions have the same canonical form exactly when they agree on the
  sender's identifier, the receiver's identifier, the value and the timestamp: equal
  fields give the same text, and a change of any one of the four changes it.
\<close>

theorem canonical_form_injective:
  "canonical_form L t1 = canonical_form L t2 \<longleftrightarrow>
     identity L (sender t1) = identity L (sender t2)
     \<and> identity L (receiver t1) = identity L (receiver t2)
     \<and> val t1 = val t2 \<and> timestamp t1 = timestamp t2"
proof
  assume "identity L (sender t1) = identity L (sender t2)
     \<and> identity L (receiver t1) = identity L (receiver t2)
     \<and> val t1 = val t2 \<and> timestamp t1 = timestamp t2"
  then show "canonical_form L t1 = canonical_form L t2"
    by (simp add: canonical_form_def to_dict_def)
next
  assume e: "canonical_form L t1 = canonical_form L t2"
  have q: "CHR 0x27 \<notin> set (identity L nd)" for nd
    by (rule hex_no_quote[OF is_hex_identity])
  from e[unfolded canonical_shape same_append_eq]
  have s: "identity L (sender t1) = identity L (sender t2)"
    and r1: "('', '' @ repr_str ''receiver'' @ '': '' @ [CHR 0x27]) @ identity L (receiver t1) @ CHR 0x27 #
     ('', '' @ repr_str ''value'' @ '': '') @ str_int (val t1) @ CHR '','' #
     ('' '' @ repr_str ''time'' @ '': '') @ repr_datetime (timestamp t1) @ ''}''
     = ('', '' @ repr_str ''receiver'' @ '': '' @ [CHR 0x27]) @ identity L (receiver t2) @ CHR 0x27 #
     ('', '' @ repr_str ''value'' @ '': '') @ str_int (val t2) @ CHR '','' #
     ('' '' @ repr_str ''time'' @ '': '') @ repr_datetime (timestamp t2) @ ''}''"
    using split_at_first[OF q q] by blast+
  from r1[unfolded same_append_eq]
  have r: "identity L (receiver t1) = identity L (receiver t2)"
    and r2: "('', '' @ repr_str ''value'' @ '': '') @ str_int (val t1) @ CHR '','' #
     ('' '' @ repr_str ''time'' @ '': '') @ repr_datetime (timestamp t1) @ ''}''
     = ('', '' @ repr_str ''value'' @ '': '') @ str_int (val t2) @ CHR '','' #
     ('' '' @ repr_str ''time'' @ '': '') @ repr_datetime (timestamp t2) @ ''}''"
    using split_at_first[OF q q] by blast+
  from r2[unfolded same_append_eq]
  have v: "str_int (val t1) = str_int (val t2)"
    and r3: "('' '' @ repr_str ''time'' @ '': '') @ repr_datetime (timestamp t1) @ ''}''
     = ('' '' @ repr_str ''time'' @ '': '') @ repr_datetime (timestamp t2) @ ''}''"
    using split_at_first[OF str_int_no_comma str_int_no_comma] by blast+
  from r3[unfolded same_append_eq append_same_eq]
  have "repr_datetime (timestamp t1) = repr_datetime (timestamp t2)" .
  then have "timestamp t1 = timestamp t2" by (rule repr_datetime_inj)
  with s r str_int_inj[OF v]
  show "identity L (sender t1) = identity L (sender t2)
     \<and> identity L (receiver t1) = identity L (receiver t2)
     \<and> val t1 = val t2 \<and> timestamp t1 = timestamp t2" by simp
qed

theorem canonical_form_injective_witness:
  "canonical_form toy_crypto tx1 \<noteq> canonical_form toy_crypto (tx1\<lparr>val := 11\<rparr>)
   \<and> canonical_form toy_crypto tx1 \<noteq> canonical_form toy_crypto (tx1\<lparr>timestamp := time0\<lparr>second := 1\<rparr>\<rparr>)
   \<and> canonical_form toy_crypto tx1
       = canonical_form toy_crypto (tx1\<lparr>sender := nodeA\<lparr>name := ''someone''\<rparr>\<rparr>)"
  using canonical_form_injective [of toy_crypto tx1 "tx1\<lparr>val := 11\<rparr>"]
    canonical_form_injective [of toy_crypto tx1 "tx1\<lparr>timestamp := time0\<lparr>second := 1\<rparr>\<rparr>"]
    canonical_form_injective [of toy_crypto tx1 "tx1\<lparr>sender := nodeA\<lparr>name := ''someone''\<rparr>\<rparr>"]
  by (simp add: tx1_def Transaction_init_def identity_def nodeA_def time0_def)



subsection \<open>The texts that are hashed, on concrete values\<close>

text \<open>
  The canonical form of a transaction and the header of a block, as Python prints them.
\<close>

lemma canonical_form_example:
  "canonical_form toy_crypto tx1 =
     CHR ''{'' # CHR 0x27 # ''sender'' @ CHR 0x27 # '': '' @ CHR 0x27 # ''0ca111'' @ CHR 0x27 #
     '', '' @ CHR 0x27 # ''receiver'' @ CHR 0x27 # '': '' @ CHR 0x27 # ''0ad511'' @ CHR 0x27 #
     '', '' @ CHR 0x27 # ''value'' @ CHR 0x27 # '': 10, '' @ CHR 0x27 # ''time'' @ CHR 0x27 #
     '': datetime.datetime(2024, 5, 17, 9, 30)}''"
  by (simp add: canonical_form_def str_dict_def to_dict_def join_comma_def identity_def
      toy_crypto_def tx1_def Transaction_init_def nodeA_def nodeB_def time0_def be_bytes_def
      upt_rec hexlify_def hex_byte_def hex_digit_def hex_digits_def repr_str_def repr_char_def
      printable_def Let_def str_int_def str_nat.simps repr_datetime_def digit_char_def)

lemma header_example:
  "str_dict (header_to_dict \<lparr>verified_transactions = 1, previous_hash = [], difficulty = 2,
       transaction_hash = ''e3b0c44298fc1c149afbf4c8996fb92427ae41e4649b934ca495991b7852b855'',
       nonce = Some 7\<rparr>) =
     CHR ''{'' # CHR 0x27 # ''previous_hash'' @ CHR 0x27 # '': '' @ [CHR 0x27, CHR 0x27] @
     '', '' @ CHR 0x27 # ''difficulty'' @ CHR 0x27 # '': 2, '' @
     CHR 0x27 # ''transaction_hash'' @ CHR 0x27 # '': '' @ CHR 0x27 #
     ''e3b0c44298fc1c149afbf4c8996fb92427ae41e4649b934ca495991b7852b855'' @ CHR 0x27 #
     '', '' @ CHR 0x27 # ''nonce'' @ CHR 0x27 # '': 7}''"
  by (simp add: str_dict_def header_to_dict_def join_comma_def repr_str_def repr_char_def
      printable_def Let_def str_int_def str_nat.simps digit_char_def)

end
